theory Spec2Isabelle
  imports Main
begin

section \<open>Values and errors\<close>

text \<open>
  The pipeline handles dynamically typed values (Go's \<open>interface{}\<close>): \<open>nil\<close>, booleans,
  numbers, strings, slices and string-keyed maps. \<open>JPair\<close> is a Go value of the array type
  \<open>[2]interface{}\<close>, which the older revision of the command line (src/unnamed/part_000)
  receives from the evaluator for its debug, stderr and halt messages.
\<close>

datatype val =
    JNull
  | JBool bool
  | JNumber int
  | JString string
  | JArray "val list"
  | JObject "(string \<times> val) list"
  | JPair val val

text \<open>
  Error values. \<open>ErrorString\<close> is an error that only renders a message: the results of
  \<open>errors.New\<close> and \<open>fmt.Errorf\<close>, and every error handed over by a collaborator (a decoder,
  the evaluator, an encoder, the operating system). The other constructors are the error
  types of the package that src/cli/cli.go builds; \<open>JSONParseError0\<close> is the three-field
  \<open>jsonParseError\<close> of src/unnamed/part_000.
\<close>

datatype error =
    ErrorString string
  | FlagParseError error
  | QueryParseError string string string error
  | CompileError error
  | JSONParseError string string int error
  | JSONParseError0 string string error
  | EmptyError error
  | ExitCodeError int

definition exitCodeOK :: int where "exitCodeOK = 0"
definition exitCodeFalsyErr :: int where "exitCodeFalsyErr = 1"
definition exitCodeFlagParseErr :: int where "exitCodeFlagParseErr = 2"
definition exitCodeCompileErr :: int where "exitCodeCompileErr = 3"
definition exitCodeNoValueErr :: int where "exitCodeNoValueErr = 4"
definition exitCodeDefaultErr :: int where "exitCodeDefaultErr = 5"

text \<open>
  Modelled from the spec: the methods of the package's error types are declared in a file
  that is not under src/; cli.go only tests for them through the interfaces
  \<open>interface{ IsEmptyError() bool }\<close> and \<open>interface{ ExitCode() int }\<close>. The result is
  \<open>None\<close> when the type does not implement the method. The empty-error wrapper and the
  exit-status sentinel are marked as already reported. Flag parsing failures and query
  parse or compile failures carry their own distinct codes, the sentinel carries the code
  it was built with, and the wrapper reports that some failure occurred: the wrapped
  error's code when it has one, the default failure code otherwise.
\<close>

fun IsEmptyError :: "error \<Rightarrow> bool option" where
  "IsEmptyError (EmptyError e) = Some True"
| "IsEmptyError (ExitCodeError n) = Some True"
| "IsEmptyError e = None"

fun ExitCode :: "error \<Rightarrow> int option" where
  "ExitCode (FlagParseError e) = Some exitCodeFlagParseErr"
| "ExitCode (QueryParseError t n q e) = Some exitCodeCompileErr"
| "ExitCode (CompileError e) = Some exitCodeCompileErr"
| "ExitCode (EmptyError e) =
     (case ExitCode e of Some n \<Rightarrow> Some n | None \<Rightarrow> Some exitCodeDefaultErr)"
| "ExitCode (ExitCodeError n) = Some n"
| "ExitCode e = None"

section \<open>Collaborators\<close>

text \<open>
  A result item of the evaluator, and a record of an input iterator, is an error (given by
  its message) or a value. A compiled query maps an input value and the bound argument
  values to the finite sequence of items its result iterator yields.
\<close>

type_synonym item = "string + val"
type_synonym code = "val \<Rightarrow> val list \<Rightarrow> item list"

text \<open>
  The byte-level encoders are outside the pipeline: \<open>encodeJSON tab indent v\<close> is what
  \<open>newEncoder(tab, indent).marshal\<close> writes for \<open>v\<close>, \<open>encodeYAML indent v\<close> what
  \<open>yamlFormatter(indent).marshal\<close> writes, and \<open>encodeJSON0 compact v\<close> and
  \<open>encodeYAML0 v\<close> what the formatters of the older revision return; each gives the bytes
  or the message of the error. \<open>errorText\<close> is the \<open>Error()\<close> method of the package's
  error types.
\<close>

record encoders =
  encodeJSON :: "bool \<Rightarrow> int \<Rightarrow> val \<Rightarrow> string + string"
  encodeYAML :: "int option \<Rightarrow> val \<Rightarrow> string + string"
  encodeJSON0 :: "bool \<Rightarrow> val \<Rightarrow> string + string"
  encodeYAML0 :: "val \<Rightarrow> string + string"
  errorText :: "error \<Rightarrow> string"

definition Error :: "encoders \<Rightarrow> error \<Rightarrow> string" where
  "Error E e = (case e of ErrorString s \<Rightarrow> s | _ \<Rightarrow> errorText E e)"

section \<open>The state of a run\<close>

text \<open>
  The fields of \<open>struct cli\<close>. A stream is the list of the byte strings written to it, one
  element for each write. \<open>noColor\<close> is the package-level variable of that name.
\<close>

record cli =
  outStream :: "string list"
  errStream :: "string list"
  outputCompact :: bool
  outputRaw :: bool
  outputJoin :: bool
  outputNul :: bool
  outputYAML :: bool
  outputIndent :: "int option"
  outputTab :: bool
  inputRaw :: bool
  inputSlurp :: bool
  inputStream :: bool
  inputYAML :: bool
  disableUnsafe :: bool
  argnames :: "string list"
  argvalues :: "val list"
  outputYAMLSeparator :: bool
  exitCodeError :: "error option"
  noColor :: bool

definition name :: string where "name = ''gojq''"

definition newline :: string where "newline = [CHR 0x0A]"

definition yamlSeparator :: string where "yamlSeparator = ''---'' @ newline"

definition writeOut :: "string \<Rightarrow> cli \<Rightarrow> cli" where
  "writeOut bs c = c\<lparr>outStream := outStream c @ [bs]\<rparr>"

definition writeErr :: "string \<Rightarrow> cli \<Rightarrow> cli" where
  "writeErr bs c = c\<lparr>errStream := errStream c @ [bs]\<rparr>"

section \<open>Output marshalers (src/cli/cli.go)\<close>

datatype marshaler =
    yamlFormatter "int option"
  | newEncoder bool int
  | rawMarshaler marshaler

text \<open>
  Modelled from the spec: \<open>rawMarshaler\<close> is declared outside src/. The raw decorator
  wraps another encoder; if the value is a string it emits its raw bytes unquoted and
  unescaped instead of delegating, and otherwise it delegates unchanged.
\<close>

fun marshal :: "encoders \<Rightarrow> marshaler \<Rightarrow> val \<Rightarrow> string + string" where
  "marshal E (yamlFormatter i) v = encodeYAML E i v"
| "marshal E (newEncoder tab indent) v = encodeJSON E tab indent v"
| "marshal E (rawMarshaler f) v = (case v of JString s \<Rightarrow> Inr s | _ \<Rightarrow> marshal E f v)"

definition createMarshaler :: "cli \<Rightarrow> marshaler" where
  "createMarshaler c =
     (if outputYAML c then yamlFormatter (outputIndent c)
      else
        let indent =
              (if outputCompact c then 0
               else if outputTab c then 1
               else (case outputIndent c of Some i \<Rightarrow> i | None \<Rightarrow> 2));
            f = newEncoder (outputTab c) indent
        in if outputRaw c \<or> outputJoin c \<or> outputNul c then rawMarshaler f else f)"

section \<open>The run loop (src/cli/cli.go)\<close>

definition printError :: "encoders \<Rightarrow> error \<Rightarrow> cli \<Rightarrow> cli" where
  "printError E err c =
     (case IsEmptyError err of
        Some True \<Rightarrow> c
      | _ \<Rightarrow> writeErr (name @ '': '' @ Error E err @ newline) c)"

text \<open>The update of the exit-status accumulator after a value has been marshaled.\<close>

definition trackExitCode :: "val \<Rightarrow> cli \<Rightarrow> cli" where
  "trackExitCode v c =
     (if exitCodeError c \<noteq> None then
        (if v = JNull \<or> v = JBool False
         then c\<lparr>exitCodeError := Some (ExitCodeError exitCodeFalsyErr)\<rparr>
         else c\<lparr>exitCodeError := Some (ExitCodeError exitCodeOK)\<rparr>)
      else c)"

definition writeTerminator :: "cli \<Rightarrow> cli" where
  "writeTerminator c =
     (if \<not> outputJoin c \<and> \<not> outputYAML c then
        (if outputNul c then writeOut [CHR 0x00] c else writeOut newline c)
      else c)"

definition writeSeparator :: "cli \<Rightarrow> cli" where
  "writeSeparator c =
     (if outputYAMLSeparator c then writeOut yamlSeparator c
      else c\<lparr>outputYAMLSeparator := outputYAML c\<rparr>)"

text \<open>
  The loop of \<open>printValues\<close> over the items of the result iterator, with the marshaler
  \<open>m\<close> created before the loop. A failing \<open>marshal\<close> is taken to have written nothing.
\<close>

fun printValuesLoop :: "encoders \<Rightarrow> marshaler \<Rightarrow> item list \<Rightarrow> cli \<Rightarrow> error option \<times> cli" where
  "printValuesLoop E m [] c = (None, c)"
| "printValuesLoop E m (Inl err # rest) c = (Some (ErrorString err), c)"
| "printValuesLoop E m (Inr v # rest) c =
     (let c1 = writeSeparator c in
      case marshal E m v of
        Inl err \<Rightarrow> (Some (ErrorString err), c1)
      | Inr bs \<Rightarrow> printValuesLoop E m rest (writeTerminator (trackExitCode v (writeOut bs c1))))"

definition printValues :: "encoders \<Rightarrow> item list \<Rightarrow> cli \<Rightarrow> error option \<times> cli" where
  "printValues E iter c = printValuesLoop E (createMarshaler c) iter c"

text \<open>
  The loop of \<open>process\<close> over the records of the input iterator; \<open>err\<close> is the local
  variable of that name.
\<close>

fun processLoop ::
  "encoders \<Rightarrow> code \<Rightarrow> item list \<Rightarrow> error option \<Rightarrow> cli \<Rightarrow> error option \<times> cli" where
  "processLoop E code [] err c = (err, c)"
| "processLoop E code (Inl er # rest) err c =
     processLoop E code rest (Some (EmptyError (ErrorString er)))
       (printError E (ErrorString er) c)"
| "processLoop E code (Inr v # rest) err c =
     (case printValues E (code v (argvalues c)) c of
        (Some er, c1) \<Rightarrow> processLoop E code rest (Some (EmptyError er)) (printError E er c1)
      | (None, c1) \<Rightarrow> processLoop E code rest err c1)"

definition process :: "encoders \<Rightarrow> item list \<Rightarrow> code \<Rightarrow> cli \<Rightarrow> error option \<times> cli" where
  "process E iter code c = processLoop E code iter None c"

section \<open>Input iterators (src/cli/cli.go)\<close>

text \<open>
  \<open>createInputIter\<close> picks a constructor of a base iterator and wraps the result. The
  value \<open>newIter\<close> is the constructor picked; \<open>sourceInputIter k n\<close> is \<open>k\<close> applied to
  the reader of the source named \<open>n\<close> (\<open><stdin>\<close> names \<open>cli.inStream\<close>).
\<close>

datatype newIter = newRawInputIter | newStreamInputIter | newYAMLInputIter | newJSONInputIter

datatype inputIter =
    sourceInputIter newIter string
  | newFilesInputIter newIter "string list"
  | newSlurpRawInputIter inputIter
  | newSlurpInputIter inputIter
  | newNullInputIter

definition createInputIter :: "cli \<Rightarrow> string list \<Rightarrow> inputIter" where
  "createInputIter c args =
     (let newIter =
            (if inputRaw c then newRawInputIter
             else if inputStream c then newStreamInputIter
             else if inputYAML c then newYAMLInputIter
             else newJSONInputIter);
          iter = (if args = [] then sourceInputIter newIter ''<stdin>''
                  else newFilesInputIter newIter args)
      in if inputSlurp c then
           (if inputRaw c then newSlurpRawInputIter iter else newSlurpInputIter iter)
         else iter)"

text \<open>
  The readers: \<open>decode k n\<close> is the sequence of records the base iterator \<open>k\<close> yields on
  the source named \<open>n\<close> (a source that cannot be opened yields one error record), and
  \<open>readAll it\<close> is the whole text under the iterator \<open>it\<close>, or the message of the read
  error.
\<close>

record readers =
  decode :: "newIter \<Rightarrow> string \<Rightarrow> item list"
  readAll :: "inputIter \<Rightarrow> string + string"

text \<open>
  Modelled from the spec: the slurp decorator is declared outside src/. It drains the
  wrapped iterator fully, collecting all non-error values into one ordered sequence, which
  becomes the single emitted value; if the wrapped iterator ever yields an error, that
  error is emitted instead and draining stops.
\<close>

fun slurp :: "item list \<Rightarrow> val list \<Rightarrow> item list" where
  "slurp [] vs = [Inr (JArray vs)]"
| "slurp (Inl err # rest) vs = [Inl err]"
| "slurp (Inr v # rest) vs = slurp rest (vs @ [v])"

text \<open>
  Modelled from the spec: the iterators are declared outside src/. \<open>records R it\<close> is the
  sequence of records that \<open>it.Next()\<close> yields until it is exhausted: the multi-file
  sequencer concatenates the outputs of a fresh base iterator per file, the raw slurp
  emits the whole text as one string value, and the null iterator yields exactly one
  \<open>null\<close>.
\<close>

fun records :: "readers \<Rightarrow> inputIter \<Rightarrow> item list" where
  "records R (sourceInputIter k n) = decode R k n"
| "records R (newFilesInputIter k ns) = concat (map (decode R k) ns)"
| "records R (newSlurpRawInputIter it) =
     (case readAll R it of Inl err \<Rightarrow> [Inl err] | Inr s \<Rightarrow> [Inr (JString s)])"
| "records R (newSlurpInputIter it) = slurp (records R it) []"
| "records R newNullInputIter = [Inr JNull]"

section \<open>Start of a run (src/cli/cli.go)\<close>

text \<open>
  The parsed flags. The bindings \<open>--arg\<close>, \<open>--argjson\<close>, \<open>--slurpfile\<close> and \<open>--rawfile\<close>
  and the module paths are Go maps and lists that only the collaborators below read.
\<close>

record flagopts =
  OutputCompact :: bool
  OutputRaw :: bool
  OutputJoin :: bool
  OutputNul :: bool
  OutputColor :: bool
  OutputMono :: bool
  OutputYAML :: bool
  OutputIndent :: "int option"
  OutputTab :: bool
  InputNull :: bool
  InputRaw :: bool
  InputSlurp :: bool
  InputStream :: bool
  InputYAML :: bool
  FromFile :: string
  ExitStatus :: bool
  Version :: bool
  DisableUnsafe :: bool

text \<open>
  The result of \<open>flags.ParseArgs\<close>: an error that is not a help request, a help request
  with its text, or the parsed flags with the remaining arguments.
\<close>

datatype flagsResult = FlagsError string | FlagsHelp string | Flags flagopts "string list"

text \<open>
  The result of \<open>gojq.Compile\<close>: the compiled query, an error with a \<open>QueryParseError\<close>
  method (type, name, query, cause), an error with a \<open>JSONParseError\<close> method (file name,
  contents, cause), or another error.
\<close>

datatype compileResult =
    Compiled code
  | CompileQueryParseError string string string string
  | CompileJSONParseError string string string
  | CompileFailed string

text \<open>
  What the run asks of its surroundings: the flag parser, the process environment (a
  variable that is not set has no entry), the terminal probes on \<open>cli.outStream\<close>,
  \<open>setColors\<close> (declared outside src/; its error message if it fails), the names and
  values that the four binding loops append together with the message of the error that
  ended them early (lines 155 to 182), \<open>ioutil.ReadFile\<close>, \<open>strings.TrimSpace\<close>,
  \<open>gojq.Parse\<close> (its error message if it fails; the parsed query is represented by
  its text), \<open>gojq.Compile\<close> on the query with the variable names and the flag that
  leaves the exec filters out, whether \<open>os.Stat\<close> reports that a name does not exist, and
  \<open>runtime.Version()\<close>.
\<close>

record system =
  ParseArgs :: "string list \<Rightarrow> flagsResult"
  environ :: "string \<rightharpoonup> string"
  hasFd :: bool
  IsTerminal :: bool
  IsCygwinTerminal :: bool
  setColors :: "string \<Rightarrow> string option"
  bindings :: "flagopts \<Rightarrow> string list \<times> val list \<times> string option"
  ReadFile :: "string \<Rightarrow> string + string"
  TrimSpace :: "string \<Rightarrow> string"
  Parse :: "string \<Rightarrow> string option"
  Compile :: "string \<Rightarrow> string list \<Rightarrow> bool \<Rightarrow> compileResult"
  IsNotExist :: "string \<Rightarrow> bool"
  runtimeVersion :: string

definition Getenv :: "system \<Rightarrow> string \<Rightarrow> string" where
  "Getenv W k = (case environ W k of None \<Rightarrow> [] | Some v \<Rightarrow> v)"

definition version :: string where "version = ''0.12.3''"

definition revision :: string where "revision = ''HEAD''"

text \<open>Decimal rendering of an integer, as the verb \<open>%d\<close> prints it.\<close>

definition digit :: "nat \<Rightarrow> char" where
  "digit d =
     (if d = 0 then CHR ''0'' else if d = 1 then CHR ''1'' else if d = 2 then CHR ''2''
      else if d = 3 then CHR ''3'' else if d = 4 then CHR ''4'' else if d = 5 then CHR ''5''
      else if d = 6 then CHR ''6'' else if d = 7 then CHR ''7'' else if d = 8 then CHR ''8''
      else CHR ''9'')"

function natToDec :: "nat \<Rightarrow> string" where
  "natToDec n = (if n < 10 then [digit n] else natToDec (n div 10) @ [digit (n mod 10)])"
  by pat_completeness auto
termination
  by (relation "measure id") auto

definition itoa :: "int \<Rightarrow> string" where
  "itoa i = (if i < 0 then ''-'' @ natToDec (nat (- i)) else natToDec (nat i))"

definition isTTY :: "system \<Rightarrow> bool" where
  "isTTY W =
     (if Getenv W ''TERM'' = ''dumb'' then False
      else hasFd W \<and> (IsTerminal W \<or> IsCygwinTerminal W))"

text \<open>The value that lines 129 to 135 of \<open>runInternal\<close> assign to \<open>noColor\<close>.\<close>

definition chooseNoColor :: "system \<Rightarrow> flagopts \<Rightarrow> bool" where
  "chooseNoColor W opts =
     (if OutputColor opts \<or> OutputMono opts then OutputMono opts
      else if Getenv W ''NO_COLOR'' \<noteq> [] then True
      else \<not> isTTY W)"

text \<open>The check of the indentation count, lines 143 to 149 of \<open>runInternal\<close>.\<close>

definition checkIndent :: "int option \<Rightarrow> error option" where
  "checkIndent oi =
     (case oi of
        None \<Rightarrow> None
      | Some i \<Rightarrow>
          if i > 9 then Some (ErrorString (''too many indentation count: '' @ itoa i))
          else if i < 0 then Some (ErrorString (''negative indentation count: '' @ itoa i))
          else None)"

text \<open>
  The function registered by \<open>defer\<close> in exit-status mode (lines 198 to 202), applied to
  the result of the rest of \<open>runInternal\<close>.
\<close>

definition exitStatusDefer :: "error option \<times> cli \<Rightarrow> error option \<times> cli" where
  "exitStatusDefer r =
     (case r of (err, c) \<Rightarrow>
        (if (case err of
               None \<Rightarrow> True
             | Some e \<Rightarrow> (case ExitCode e of None \<Rightarrow> True | Some n \<Rightarrow> n = 0))
         then (exitCodeError c, c)
         else (err, c)))"

text \<open>Lines 204 to 255: parse and compile the query, then process the input.\<close>

definition evaluate ::
  "encoders \<Rightarrow> readers \<Rightarrow> system \<Rightarrow> flagopts \<Rightarrow> string \<Rightarrow> string \<Rightarrow> string list \<Rightarrow> cli
     \<Rightarrow> error option \<times> cli" where
  "evaluate E R W opts arg fname args c =
     (case Parse W arg of
        Some e \<Rightarrow> (Some (QueryParseError ''query'' fname arg (ErrorString e)), c)
      | None \<Rightarrow>
          let iter = createInputIter c args in
          (case Compile W arg (argnames c) (disableUnsafe c) of
             CompileQueryParseError typ nm q e \<Rightarrow>
               (Some (QueryParseError typ
                        (if IsNotExist W nm then fname @ '':'' @ nm else nm) q (ErrorString e)), c)
           | CompileJSONParseError fn contents e \<Rightarrow>
               (Some (CompileError (JSONParseError fn contents 0 (ErrorString e))), c)
           | CompileFailed e \<Rightarrow> (Some (CompileError (ErrorString e)), c)
           | Compiled code \<Rightarrow>
               process E (records R (if InputNull opts then newNullInputIter else iter)) code c))"

text \<open>Lines 183 to 203: the text of the query, and exit-status mode.\<close>

definition loadQuery ::
  "encoders \<Rightarrow> readers \<Rightarrow> system \<Rightarrow> flagopts \<Rightarrow> string list \<Rightarrow> cli \<Rightarrow> error option \<times> cli" where
  "loadQuery E R W opts args c =
     (case (if FromFile opts \<noteq> [] then
              (case ReadFile W (FromFile opts) of
                 Inl e \<Rightarrow> Inl e
               | Inr src \<Rightarrow> Inr (src, FromFile opts, args))
            else if args = [] then Inr (''.'', [], args)
            else Inr (TrimSpace W (hd args), ''<arg>'', tl args)) of
        Inl e \<Rightarrow> (Some (ErrorString e), c)
      | Inr (arg, fname, args') \<Rightarrow>
          if ExitStatus opts then
            exitStatusDefer
              (evaluate E R W opts arg fname args'
                 (c\<lparr>exitCodeError := Some (ExitCodeError exitCodeNoValueErr)\<rparr>))
          else evaluate E R W opts arg fname args' c)"

text \<open>Lines 153 to 182: the input flags and the argument bindings.\<close>

definition bindArguments ::
  "encoders \<Rightarrow> readers \<Rightarrow> system \<Rightarrow> flagopts \<Rightarrow> string list \<Rightarrow> cli \<Rightarrow> error option \<times> cli" where
  "bindArguments E R W opts args c =
     (case bindings W opts of (names, vals, failure) \<Rightarrow>
        let c1 = c\<lparr>inputRaw := InputRaw opts, inputSlurp := InputSlurp opts,
                    inputStream := InputStream opts, inputYAML := InputYAML opts\<rparr>;
            c2 = c1\<lparr>argnames := argnames c1 @ names, argvalues := argvalues c1 @ vals\<rparr>
        in (case failure of
              Some e \<Rightarrow> (Some (ErrorString e), c2)
            | None \<Rightarrow> loadQuery E R W opts args c2))"

text \<open>Lines 136 to 152: the color scheme and the checks of the output flags.\<close>

definition validate ::
  "encoders \<Rightarrow> readers \<Rightarrow> system \<Rightarrow> flagopts \<Rightarrow> string list \<Rightarrow> cli \<Rightarrow> error option \<times> cli" where
  "validate E R W opts args c =
     (case (if \<not> noColor c \<and> Getenv W ''GOJQ_COLORS'' \<noteq> []
            then setColors W (Getenv W ''GOJQ_COLORS'') else None) of
        Some e \<Rightarrow> (Some (ErrorString e), c)
      | None \<Rightarrow>
          (case checkIndent (outputIndent c) of
             Some e \<Rightarrow> (Some e, c)
           | None \<Rightarrow>
               if OutputYAML opts \<and> OutputTab opts
               then (Some (ErrorString ''cannot use tabs for YAML output''), c)
               else bindArguments E R W opts args c))"

definition versionLine :: "system \<Rightarrow> string" where
  "versionLine W =
     name @ '' '' @ version @ '' (rev: '' @ revision @ ''/'' @ runtimeVersion W @ '')'' @ newline"

definition helpBanner :: "system \<Rightarrow> string" where
  "helpBanner W =
     name @ '' - Go implementation of jq'' @ newline @ newline @
     ''Version: '' @ version @ '' (rev: '' @ revision @ ''/'' @ runtimeVersion W @ '')'' @
     newline @ newline @ ''Synopsis:'' @ newline @
     ''  % echo '' @ [CHR 0x27] @ ''{'' @ [CHR 0x22] @ ''foo'' @ [CHR 0x22] @ '': 128}'' @
     [CHR 0x27] @ '' | '' @ name @ '' '' @ [CHR 0x27] @ ''.foo'' @ [CHR 0x27] @
     newline @ newline"

definition assignOutputFlags :: "flagopts \<Rightarrow> cli \<Rightarrow> cli" where
  "assignOutputFlags opts c =
     c\<lparr>outputCompact := OutputCompact opts, outputRaw := OutputRaw opts,
       outputJoin := OutputJoin opts, outputNul := OutputNul opts,
       outputYAML := OutputYAML opts, outputIndent := OutputIndent opts,
       outputTab := OutputTab opts, disableUnsafe := DisableUnsafe opts\<rparr>"

text \<open>
  \<open>runInternal\<close>. The deferred assignment of line 128 restores \<open>noColor\<close> on every return
  after it.
\<close>

definition runInternal ::
  "encoders \<Rightarrow> readers \<Rightarrow> system \<Rightarrow> string list \<Rightarrow> cli \<Rightarrow> error option \<times> cli" where
  "runInternal E R W args c =
     (case ParseArgs W args of
        FlagsHelp msg \<Rightarrow> (None, writeOut (msg @ newline) (writeOut (helpBanner W) c))
      | FlagsError e \<Rightarrow> (Some (FlagParseError (ErrorString e)), c)
      | Flags opts rest \<Rightarrow>
          if Version opts then (None, writeOut (versionLine W) c)
          else
            let c1 = assignOutputFlags opts c in
            (case validate E R W opts rest (c1\<lparr>noColor := chooseNoColor W opts\<rparr>) of
               (err, c2) \<Rightarrow> (err, c2\<lparr>noColor := noColor c1\<rparr>)))"

text \<open>The exit code that \<open>run\<close> returns for the result of \<open>runInternal\<close>.\<close>

definition exitCodeOf :: "error option \<Rightarrow> int" where
  "exitCodeOf r =
     (case r of
        None \<Rightarrow> exitCodeOK
      | Some err \<Rightarrow> (case ExitCode err of Some n \<Rightarrow> n | None \<Rightarrow> exitCodeDefaultErr))"

definition run :: "encoders \<Rightarrow> readers \<Rightarrow> system \<Rightarrow> string list \<Rightarrow> cli \<Rightarrow> int \<times> cli" where
  "run E R W args c =
     (case runInternal E R W args c of
        (Some err, c1) \<Rightarrow> (exitCodeOf (Some err), printError E err c1)
      | (None, c1) \<Rightarrow> (exitCodeOf None, c1))"

section \<open>The filters exec and execpipe (src/cli/cli.go)\<close>

text \<open>
  \<open>Output path args stdin\<close> is what \<open>exec.Command(path, args...)\<close> with the given standard
  input gives to \<open>cmd.Output()\<close>: the captured standard output, the message of the error
  if there is one (the command cannot start, or does not complete successfully), and the
  exit code of the process state. \<open>formatValue\<close> is the rendering of a value by the verb
  \<open>%v\<close>.
\<close>

record commands =
  Output :: "string \<Rightarrow> string list \<Rightarrow> string \<Rightarrow> string \<times> string option \<times> int"
  formatValue :: "val \<Rightarrow> string"

text \<open>A native filter returns an error or a value, unless it panics.\<close>

datatype outcome = Panics | Returns "error + val"

text \<open>The loop of lines 282 to 288: the arguments as strings, or \<open>None\<close> at the first
  element that is not a string.\<close>

fun stringsOf :: "val list \<Rightarrow> string list option" where
  "stringsOf [] = Some []"
| "stringsOf (JString s # rest) = map_option ((#) s) (stringsOf rest)"
| "stringsOf (v # rest) = None"

definition runCommand :: "commands \<Rightarrow> string \<Rightarrow> string \<Rightarrow> string list \<Rightarrow> string \<Rightarrow> outcome" where
  "runCommand X funcname executablePath cmds input =
     (case Output X executablePath cmds input of
        (b, Some err, status) \<Rightarrow> Returns (Inl (ErrorString err))
      | (b, None, status) \<Rightarrow>
          if status \<noteq> 0
          then Returns (Inl (ErrorString (funcname @ ''/2 returns non-zero status: '' @ itoa status)))
          else Returns (Inr (JString b)))"

definition funcExecImpl :: "commands \<Rightarrow> string \<Rightarrow> val \<Rightarrow> val list \<Rightarrow> outcome" where
  "funcExecImpl X funcname i i2 =
     (case (case i of
              JString s \<Rightarrow> Inr s
            | JNull \<Rightarrow> Inr []
            | _ \<Rightarrow> Inl (ErrorString (''exec/2 filter input must be string: '' @ formatValue X i))) of
        Inl e \<Rightarrow> Returns (Inl e)
      | Inr input \<Rightarrow>
          (case i2 of
             [] \<Rightarrow> Panics
           | JString executablePath # rest \<Rightarrow>
               (case rest of
                  [] \<Rightarrow> Panics
                | JArray args # _ \<Rightarrow>
                    (case stringsOf args of
                       None \<Rightarrow>
                         Returns (Inl (ErrorString
                           (funcname @ ''/2 the second argument must be array of string: '' @
                            formatValue X (JArray args))))
                     | Some cmds \<Rightarrow> runCommand X funcname executablePath cmds input)
                | a1 # _ \<Rightarrow>
                    Returns (Inl (ErrorString
                      (funcname @ ''/2 the second argument must be array of string: '' @
                       formatValue X a1))))
           | a0 # _ \<Rightarrow>
               Returns (Inl (ErrorString
                 (funcname @ ''/2 the first argument must be string: '' @ formatValue X a0)))))"

definition funcExec :: "commands \<Rightarrow> val \<Rightarrow> val list \<Rightarrow> outcome" where
  "funcExec X i i2 = funcExecImpl X ''exec'' JNull i2"

definition funcExecPipe :: "commands \<Rightarrow> val \<Rightarrow> val list \<Rightarrow> outcome" where
  "funcExecPipe X i i2 = funcExecImpl X ''execpipe'' i i2"

section \<open>The older revision of the command line (src/unnamed/part_000)\<close>

text \<open>
  This revision has its own \<open>createMarshaler\<close>, and it prints and decodes inside
  \<open>printValue\<close> and \<open>processJSON\<close>. Its \<open>struct cli\<close> has a subset of the fields above;
  its functions read and write only those.
\<close>

datatype marshaler0 =
    yamlFormatter0
  | jsonFormatter0 bool
  | rawMarshaler0 marshaler0

text \<open>
  Modelled from the spec: \<open>rawMarshaler\<close> is declared outside src/ in this revision too;
  it emits the raw bytes of a string and delegates every other value.
\<close>

fun marshal0 :: "encoders \<Rightarrow> marshaler0 \<Rightarrow> val \<Rightarrow> string + string" where
  "marshal0 E yamlFormatter0 v = encodeYAML0 E v"
| "marshal0 E (jsonFormatter0 compact) v = encodeJSON0 E compact v"
| "marshal0 E (rawMarshaler0 f) v = (case v of JString s \<Rightarrow> Inr s | _ \<Rightarrow> marshal0 E f v)"

definition createMarshaler0 :: "cli \<Rightarrow> marshaler0" where
  "createMarshaler0 c =
     (if outputYAML c then yamlFormatter0
      else
        let f = jsonFormatter0 (outputCompact c)
        in if outputRaw c \<or> outputJoin c then rawMarshaler0 f else f)"

text \<open>
  The \<open>switch\<close> of \<open>printValue\<close> on a result item that is not an error: stop on a halt
  message, or marshal a value with a marshaler to the error stream (\<open>True\<close>) or to the
  output stream.
\<close>

datatype target = Halt | Emit bool marshaler0 val

definition dispatch :: "marshaler0 \<Rightarrow> cli \<Rightarrow> val \<Rightarrow> target" where
  "dispatch m c x =
     (case x of
        JPair (JString s) y \<Rightarrow>
          if s = ''HALT:'' then Halt
          else Emit True (createMarshaler0 (c\<lparr>outputCompact := True\<rparr>))
                 (if s = ''STDERR:'' then y else x)
      | _ \<Rightarrow> Emit False m x)"

definition writeTo :: "bool \<Rightarrow> string \<Rightarrow> cli \<Rightarrow> cli" where
  "writeTo toErr bs c = (if toErr then writeErr bs c else writeOut bs c)"

definition emit :: "bool \<Rightarrow> string \<Rightarrow> cli \<Rightarrow> cli" where
  "emit toErr xs c =
     (let c1 = (if outputYAMLSeparator c then writeTo toErr yamlSeparator c else c);
          c2 = writeTo toErr xs c1;
          c3 = c2\<lparr>outputYAMLSeparator := outputYAML c2\<rparr>
      in if \<not> outputJoin c3 \<and> \<not> outputYAML c3 then writeTo toErr newline c3 else c3)"

fun printValueLoop :: "encoders \<Rightarrow> marshaler0 \<Rightarrow> item list \<Rightarrow> cli \<Rightarrow> error option \<times> cli" where
  "printValueLoop E m [] c = (None, c)"
| "printValueLoop E m (Inl err # rest) c = (Some (ErrorString err), c)"
| "printValueLoop E m (Inr x # rest) c =
     (case dispatch m c x of
        Halt \<Rightarrow> (None, c)
      | Emit toErr m1 x1 \<Rightarrow>
          (case marshal0 E m1 x1 of
             Inl err \<Rightarrow> (Some (ErrorString err), c)
           | Inr xs \<Rightarrow> printValueLoop E m rest (emit toErr xs c)))"

definition printValue :: "encoders \<Rightarrow> item list \<Rightarrow> cli \<Rightarrow> error option \<times> cli" where
  "printValue E v c = printValueLoop E (createMarshaler0 c) v c"

text \<open>
  \<open>processJSON\<close>: the decoder yields a value, or fails with the text buffered so far and
  the message of the error; the end of the list is \<open>io.EOF\<close>. \<open>vs\<close> is the local slice
  of the slurped values.
\<close>

type_synonym decoded = "(string \<times> string) + val"

fun processJSONLoop ::
  "encoders \<Rightarrow> string \<Rightarrow> code \<Rightarrow> decoded list \<Rightarrow> val list \<Rightarrow> cli \<Rightarrow> error option \<times> cli" where
  "processJSONLoop E fname code [] vs c =
     (if inputSlurp c then printValue E (code (JArray vs) (argvalues c)) c else (None, c))"
| "processJSONLoop E fname code (Inl (buf, err) # rest) vs c =
     (Some (JSONParseError0 fname buf (ErrorString err)), c)"
| "processJSONLoop E fname code (Inr v # rest) vs c =
     (if inputSlurp c then processJSONLoop E fname code rest (vs @ [v]) c
      else
        (case printValue E (code v (argvalues c)) c of
           (Some err, c1) \<Rightarrow> (Some err, c1)
         | (None, c1) \<Rightarrow> processJSONLoop E fname code rest vs c1))"

definition processJSON ::
  "encoders \<Rightarrow> string \<Rightarrow> decoded list \<Rightarrow> code \<Rightarrow> cli \<Rightarrow> error option \<times> cli" where
  "processJSON E fname inp code c = processJSONLoop E fname code inp [] c"

section \<open>Notions of the specification\<close>

text \<open>
  The values of a result sequence that \<open>printValues\<close> prints with the marshaler \<open>m\<close>:
  those before the first error item and before the first value that fails to marshal.
\<close>

fun printed :: "encoders \<Rightarrow> marshaler \<Rightarrow> item list \<Rightarrow> val list" where
  "printed E m [] = []"
| "printed E m (Inl err # rest) = []"
| "printed E m (Inr v # rest) =
     (case marshal E m v of Inl err \<Rightarrow> [] | Inr bs \<Rightarrow> v # printed E m rest)"

text \<open>The values printed in a whole run over the input records, in order.\<close>

definition printedRun :: "encoders \<Rightarrow> code \<Rightarrow> cli \<Rightarrow> item list \<Rightarrow> val list" where
  "printedRun E code c recs =
     concat (map (\<lambda>r. case r of
                        Inl err \<Rightarrow> []
                      | Inr v \<Rightarrow> printed E (createMarshaler c) (code v (argvalues c))) recs)"



text \<open>The bytes a marshaler of the older revision returns for a value (empty if it fails).\<close>

definition bytesOf0 :: "encoders \<Rightarrow> marshaler0 \<Rightarrow> val \<Rightarrow> string" where
  "bytesOf0 E m v = (case marshal0 E m v of Inl err \<Rightarrow> [] | Inr bs \<Rightarrow> bs)"

text \<open>
  A value that is not a message of the older evaluator: not a pair whose first component
  is a string.
\<close>

definition plainValue :: "val \<Rightarrow> bool" where
  "plainValue x = (case x of JPair (JString s) y \<Rightarrow> False | _ \<Rightarrow> True)"

text \<open>
  A run of documents in which the separator line stands before every document: what
  follows a first document.
\<close>

definition separated :: "string list \<Rightarrow> string list" where
  "separated ds = concat (map (\<lambda>d. [yamlSeparator, d]) ds)"

text \<open>
  The writes of a multi-document output: the separator line before every document after
  the first, and none before the first.
\<close>

fun documents :: "string list \<Rightarrow> string list" where
  "documents [] = []"
| "documents (d # ds) = d # separated ds"

section \<open>Sample collaborators for the examples\<close>

text \<open>
  A small encoder (scalars as compact JSON, composite values abbreviated), a standard input
  of two documents, and a system in which flag parsing yields the given flags, the
  environment is the given one, nothing fails and the query compiles to the given code.
\<close>

definition sampleEncode :: "val \<Rightarrow> string + string" where
  "sampleEncode v =
     (case v of
        JNull \<Rightarrow> Inr ''null''
      | JBool b \<Rightarrow> Inr (if b then ''true'' else ''false'')
      | JNumber n \<Rightarrow> Inr (itoa n)
      | JString s \<Rightarrow> Inr ([CHR 0x22] @ s @ [CHR 0x22])
      | _ \<Rightarrow> Inr ''...'')"

definition sampleEncoders :: encoders where
  "sampleEncoders =
     \<lparr>encodeJSON = (\<lambda>tab indent. sampleEncode), encodeYAML = (\<lambda>indent. sampleEncode),
      encodeJSON0 = (\<lambda>compact. sampleEncode), encodeYAML0 = sampleEncode,
      errorText = (\<lambda>e. ''error'')\<rparr>"

definition sampleReaders :: readers where
  "sampleReaders =
     \<lparr>decode = (\<lambda>k n. if n = ''<stdin>'' then [Inr (JNumber 1), Inr (JNumber 2)] else []),
      readAll = (\<lambda>it. Inr [])\<rparr>"

definition sampleSystem :: "flagopts \<Rightarrow> (string \<rightharpoonup> string) \<Rightarrow> code \<Rightarrow> system" where
  "sampleSystem opts env code =
     \<lparr>ParseArgs = (\<lambda>args. Flags opts args), environ = env, hasFd = True, IsTerminal = True,
      IsCygwinTerminal = False, setColors = (\<lambda>s. None), bindings = (\<lambda>opts. ([], [], None)),
      ReadFile = (\<lambda>n. Inl ''no such file''), TrimSpace = (\<lambda>s. s), Parse = (\<lambda>q. None),
      Compile = (\<lambda>q names unsafe. Compiled code), IsNotExist = (\<lambda>n. True),
      runtimeVersion = ''go1.16''\<rparr>"

definition defaultOpts :: flagopts where
  "defaultOpts =
     \<lparr>OutputCompact = False, OutputRaw = False, OutputJoin = False, OutputNul = False,
      OutputColor = False, OutputMono = False, OutputYAML = False, OutputIndent = None,
      OutputTab = False, InputNull = False, InputRaw = False, InputSlurp = False,
      InputStream = False, InputYAML = False, FromFile = [], ExitStatus = False,
      Version = False, DisableUnsafe = False\<rparr>"

definition initialCli :: cli where
  "initialCli =
     \<lparr>outStream = [], errStream = [], outputCompact = False, outputRaw = False,
      outputJoin = False, outputNul = False, outputYAML = False, outputIndent = None,
      outputTab = False, inputRaw = False, inputSlurp = False, inputStream = False,
      inputYAML = False, disableUnsafe = False, argnames = [], argvalues = [],
      outputYAMLSeparator = False, exitCodeError = None, noColor = False\<rparr>"

text \<open>The identity query, and a query that yields \<open>true\<close> and then fails.\<close>

definition identityCode :: code where
  "identityCode v args = [Inr v]"

definition trueThenError :: code where
  "trueThenError v args = [Inr (JBool True), Inl ''boom'']"

text \<open>A query that fails and would then yield its input.\<close>

definition errorThenValue :: code where
  "errorThenValue v args = [Inl ''boom'', Inr v]"

definition sampleCommands :: commands where
  "sampleCommands =
     \<lparr>Output = (\<lambda>path args input.
                  if path = ''echo'' then (concat args @ newline, None, 0)
                  else if path = ''cat'' then (input, None, 0)
                  else if path = ''false'' then ([], Some ''exit status 1'', 1)
                  else ([], Some ''executable file not found'', - 1)),
      formatValue = (\<lambda>v. ''value'')\<rparr>"

section \<open>Evaluation rules\<close>

lemmas exitCodes =
  exitCodeOK_def exitCodeFalsyErr_def exitCodeFlagParseErr_def exitCodeCompileErr_def
  exitCodeNoValueErr_def exitCodeDefaultErr_def

lemmas sample_defs =
  sampleEncode_def sampleEncoders_def sampleReaders_def sampleSystem_def defaultOpts_def
  initialCli_def identityCode_def trueThenError_def errorThenValue_def sampleCommands_def

lemmas run_defs =
  run_def runInternal_def validate_def bindArguments_def loadQuery_def evaluate_def
  process_def printValues_def createMarshaler_def createInputIter_def exitStatusDefer_def
  exitCodeOf_def printError_def Error_def writeOut_def writeErr_def writeSeparator_def
  writeTerminator_def trackExitCode_def chooseNoColor_def checkIndent_def isTTY_def
  Getenv_def assignOutputFlags_def

section \<open>The start of a run, up to the checks of the output flags\<close>

lemma restore_noColor: "(c::cli)\<lparr>noColor := x\<rparr>\<lparr>noColor := noColor c\<rparr> = c"
  by simp

lemma noColor_assign [simp]: "noColor (assignOutputFlags opts c) = noColor c"
  by (simp add: assignOutputFlags_def)

lemma outputIndent_assign [simp]: "outputIndent (assignOutputFlags opts c) = OutputIndent opts"
  by (simp add: assignOutputFlags_def)

lemma validate_colors_ok:
  assumes "noColor c \<or> Getenv W ''GOJQ_COLORS'' = [] \<or> setColors W (Getenv W ''GOJQ_COLORS'') = None"
  shows "validate E R W opts args c =
           (case checkIndent (outputIndent c) of
              Some e \<Rightarrow> (Some e, c)
            | None \<Rightarrow>
                if OutputYAML opts \<and> OutputTab opts
                then (Some (ErrorString ''cannot use tabs for YAML output''), c)
                else bindArguments E R W opts args c)"
  using assms by (auto simp: validate_def)

lemma runInternal_flags:
  assumes "ParseArgs W args = Flags opts rest" and "\<not> Version opts"
  shows "runInternal E R W args c =
           (case validate E R W opts rest
                   ((assignOutputFlags opts c)\<lparr>noColor := chooseNoColor W opts\<rparr>) of
              (err, c2) \<Rightarrow> (err, c2\<lparr>noColor := noColor c\<rparr>))"
  using assms by (simp add: runInternal_def Let_def)

section \<open>What the loops keep and what they return\<close>

lemma createMarshaler_cong:
  "outputYAML c' = outputYAML c \<Longrightarrow> outputIndent c' = outputIndent c \<Longrightarrow>
   outputCompact c' = outputCompact c \<Longrightarrow> outputTab c' = outputTab c \<Longrightarrow>
   outputRaw c' = outputRaw c \<Longrightarrow> outputJoin c' = outputJoin c \<Longrightarrow>
   outputNul c' = outputNul c \<Longrightarrow> createMarshaler c' = createMarshaler c"
  by (simp add: createMarshaler_def)










section \<open>C1: the exit code in exit-status mode\<close>





lemma printedRun_Nil [simp]: "printedRun E code c [] = []"
  by (simp add: printedRun_def)

lemma printedRun_Inl [simp]: "printedRun E code c (Inl e # recs) = printedRun E code c recs"
  by (simp add: printedRun_def)

lemma printedRun_Inr [simp]:
  "printedRun E code c (Inr v # recs) =
     printed E (createMarshaler c) (code v (argvalues c)) @ printedRun E code c recs"
  by (simp add: printedRun_def)



text \<open>
  How a run reaches the loop: when the query parses and compiles, \<open>evaluate\<close> is
  \<open>process\<close> on the records of the input iterator, and in exit-status mode \<open>loadQuery\<close>
  sets the sentinel and applies the deferred function to that result.
\<close>

lemma evaluate_process:
  assumes "Parse W arg = None"
    and "Compile W arg (argnames c) (disableUnsafe c) = Compiled code"
  shows "evaluate E R W opts arg fname args c =
           process E (records R (if InputNull opts then newNullInputIter
                                 else createInputIter c args)) code c"
  using assms by (simp add: evaluate_def Let_def)

lemma loadQuery_exit_status:
  assumes "ExitStatus opts" and "FromFile opts = []"
    and "Parse W (if args = [] then ''.'' else TrimSpace W (hd args)) = None"
    and "Compile W (if args = [] then ''.'' else TrimSpace W (hd args)) (argnames c)
           (disableUnsafe c) = Compiled code"
  shows "loadQuery E R W opts args c =
           exitStatusDefer
             (process E
                (records R (if InputNull opts then newNullInputIter
                            else createInputIter c (if args = [] then [] else tl args)))
                code (c\<lparr>exitCodeError := Some (ExitCodeError exitCodeNoValueErr)\<rparr>))"
proof -
  let ?c = "c\<lparr>exitCodeError := Some (ExitCodeError exitCodeNoValueErr)\<rparr>"
  have i: "createInputIter ?c as = createInputIter c as" for as
    by (simp add: createInputIter_def Let_def)
  show ?thesis
  proof (cases "args = []")
    case True
    with assms show ?thesis
      using evaluate_process [of W "''.''" ?c code E R opts "[]" "[]"]
      by (simp add: loadQuery_def i)
  next
    case False
    with assms show ?thesis
      using evaluate_process [of W "TrimSpace W (hd args)" ?c code E R opts "''<arg>''" "tl args"]
      by (simp add: loadQuery_def i)
  qed
qed

lemma loadQuery_process:
  assumes "\<not> ExitStatus opts" and "FromFile opts = []"
    and "Parse W (if args = [] then ''.'' else TrimSpace W (hd args)) = None"
    and "Compile W (if args = [] then ''.'' else TrimSpace W (hd args)) (argnames c)
           (disableUnsafe c) = Compiled code"
  shows "loadQuery E R W opts args c =
           process E
             (records R (if InputNull opts then newNullInputIter
                         else createInputIter c (if args = [] then [] else tl args)))
             code c"
proof (cases "args = []")
  case True
  with assms show ?thesis
    using evaluate_process [of W "''.''" c code E R opts "[]" "[]"]
    by (simp add: loadQuery_def)
next
  case False
  with assms show ?thesis
    using evaluate_process [of W "TrimSpace W (hd args)" c code E R opts "''<arg>''" "tl args"]
    by (simp add: loadQuery_def)
qed




section \<open>C2: an error among the results of one input value\<close>






section \<open>C3: an input record that is an error\<close>



section \<open>C4: the indentation count\<close>

text \<open>
  C4. For every requested indentation count \<open>n\<close>, in a run that reaches the check (the
  flags parse, the version is not asked for, the color scheme is accepted): if \<open>n\<close> is
  negative, \<open>runInternal\<close> returns the error ``negative indentation count: n''; if \<open>n\<close>
  exceeds 9 it returns ``too many indentation count: n''; in both cases the state is the
  initial one with the output flags assigned, so nothing was read, evaluated or written.
  If \<open>0 \<le> n \<le> 9\<close> the run goes on with the check of YAML against tabs and the rest of
  the start.
\<close>

theorem indentation_count_checked:
  assumes "ParseArgs W args = Flags opts rest" and "\<not> Version opts"
    and "OutputIndent opts = Some n"
    and "chooseNoColor W opts \<or> Getenv W ''GOJQ_COLORS'' = [] \<or>
         setColors W (Getenv W ''GOJQ_COLORS'') = None"
  shows "(n < 0 \<longrightarrow> runInternal E R W args c =
            (Some (ErrorString (''negative indentation count: '' @ itoa n)),
             assignOutputFlags opts c)) \<and>
         (9 < n \<longrightarrow> runInternal E R W args c =
            (Some (ErrorString (''too many indentation count: '' @ itoa n)),
             assignOutputFlags opts c)) \<and>
         (0 \<le> n \<and> n \<le> 9 \<longrightarrow> runInternal E R W args c =
            (case (if OutputYAML opts \<and> OutputTab opts
                   then (Some (ErrorString ''cannot use tabs for YAML output''),
                         (assignOutputFlags opts c)\<lparr>noColor := chooseNoColor W opts\<rparr>)
                   else bindArguments E R W opts rest
                          ((assignOutputFlags opts c)\<lparr>noColor := chooseNoColor W opts\<rparr>)) of
               (err, c2) \<Rightarrow> (err, c2\<lparr>noColor := noColor c\<rparr>)))"
proof -
  let ?c1 = "assignOutputFlags opts c"
  let ?c2 = "?c1\<lparr>noColor := chooseNoColor W opts\<rparr>"
  have restored: "?c2\<lparr>noColor := noColor c\<rparr> = ?c1"
    using restore_noColor [of ?c1] by simp
  have colors: "noColor ?c2 \<or> Getenv W ''GOJQ_COLORS'' = [] \<or>
                setColors W (Getenv W ''GOJQ_COLORS'') = None"
    using assms(4) by simp
  have ind: "outputIndent ?c2 = Some n"
    using assms(3) by simp
  show ?thesis
    unfolding runInternal_flags [OF assms(1,2)] validate_colors_ok [OF colors] ind
    using restored by (simp add: checkIndent_def)
qed

text \<open>The counts \<open>-1\<close> and \<open>10\<close> are refused and \<open>9\<close> is accepted.\<close>

theorem indentation_count_checked_witness:
  "runInternal sampleEncoders sampleReaders
     (sampleSystem (defaultOpts\<lparr>OutputIndent := Some (- 1)\<rparr>) Map.empty identityCode)
     [] initialCli =
     (Some (ErrorString ''negative indentation count: -1''),
      assignOutputFlags (defaultOpts\<lparr>OutputIndent := Some (- 1)\<rparr>) initialCli) \<and>
   runInternal sampleEncoders sampleReaders
     (sampleSystem (defaultOpts\<lparr>OutputIndent := Some 10\<rparr>) Map.empty identityCode)
     [] initialCli =
     (Some (ErrorString ''too many indentation count: 10''),
      assignOutputFlags (defaultOpts\<lparr>OutputIndent := Some 10\<rparr>) initialCli) \<and>
   fst (runInternal sampleEncoders sampleReaders
     (sampleSystem (defaultOpts\<lparr>OutputIndent := Some 9\<rparr>) Map.empty identityCode)
     [] initialCli) = None"
  using
    indentation_count_checked [of
      "sampleSystem (defaultOpts\<lparr>OutputIndent := Some (- 1)\<rparr>) Map.empty identityCode"
      "[]" "defaultOpts\<lparr>OutputIndent := Some (- 1)\<rparr>" "[]" "- 1"
      sampleEncoders sampleReaders initialCli]
    indentation_count_checked [of
      "sampleSystem (defaultOpts\<lparr>OutputIndent := Some 10\<rparr>) Map.empty identityCode"
      "[]" "defaultOpts\<lparr>OutputIndent := Some 10\<rparr>" "[]" "10"
      sampleEncoders sampleReaders initialCli]
    indentation_count_checked [of
      "sampleSystem (defaultOpts\<lparr>OutputIndent := Some 9\<rparr>) Map.empty identityCode"
      "[]" "defaultOpts\<lparr>OutputIndent := Some 9\<rparr>" "[]" "9"
      sampleEncoders sampleReaders initialCli]
  by (simp add: sample_defs run_defs itoa_def digit_def Let_def)

section \<open>C5: YAML output with tab indentation\<close>

text \<open>
  C5, as amended. For every flag combination that parses, does not ask for the version and
  requests both YAML output and tab indentation, whatever the other flags, the environment
  and the input are, \<open>runInternal\<close> returns an error with the state being the initial one
  with the output flags assigned (nothing was read, evaluated or written), and \<open>run\<close>
  prints that error and exits with the default failure code.
\<close>

theorem yaml_with_tabs_rejected:
  assumes "ParseArgs W args = Flags opts rest" and "\<not> Version opts"
    and "OutputYAML opts" and "OutputTab opts"
  shows "\<exists>msg. runInternal E R W args c = (Some (ErrorString msg), assignOutputFlags opts c) \<and>
               run E R W args c =
                 (exitCodeDefaultErr,
                  writeErr (name @ '': '' @ msg @ newline) (assignOutputFlags opts c))"
proof -
  let ?c1 = "assignOutputFlags opts c"
  let ?c2 = "?c1\<lparr>noColor := chooseNoColor W opts\<rparr>"
  have restored: "?c2\<lparr>noColor := noColor c\<rparr> = ?c1"
    using restore_noColor [of ?c1] by simp
  have "\<exists>msg. validate E R W opts rest ?c2 = (Some (ErrorString msg), ?c2)"
    using assms(3,4)
    by (auto simp: validate_def checkIndent_def split: option.splits)
  then obtain msg where "validate E R W opts rest ?c2 = (Some (ErrorString msg), ?c2)" ..
  then have r: "runInternal E R W args c = (Some (ErrorString msg), ?c1)"
    unfolding runInternal_flags [OF assms(1,2)] using restored by simp
  then show ?thesis
    by (auto simp: run_def exitCodeOf_def printError_def Error_def)
qed

theorem yaml_with_tabs_rejected_witness:
  "\<exists>msg. runInternal sampleEncoders sampleReaders
      (sampleSystem (defaultOpts\<lparr>OutputYAML := True, OutputTab := True\<rparr>) Map.empty identityCode)
      [] initialCli =
      (Some (ErrorString msg),
       assignOutputFlags (defaultOpts\<lparr>OutputYAML := True, OutputTab := True\<rparr>) initialCli) \<and>
     run sampleEncoders sampleReaders
      (sampleSystem (defaultOpts\<lparr>OutputYAML := True, OutputTab := True\<rparr>) Map.empty identityCode)
      [] initialCli =
      (exitCodeDefaultErr, writeErr (name @ '': '' @ msg @ newline)
         (assignOutputFlags (defaultOpts\<lparr>OutputYAML := True, OutputTab := True\<rparr>) initialCli))"
  using yaml_with_tabs_rejected [of
      "sampleSystem (defaultOpts\<lparr>OutputYAML := True, OutputTab := True\<rparr>) Map.empty identityCode"
      "[]" "defaultOpts\<lparr>OutputYAML := True, OutputTab := True\<rparr>" "[]"
      sampleEncoders sampleReaders initialCli]
  by (simp add: sampleSystem_def defaultOpts_def)

text \<open>
  The claim as stated, for every other flag, fails when the version flag is among them:
  the version is printed before the output flags are looked at, and the run succeeds.
\<close>

theorem yaml_with_tabs_version_counterexample:
  "run sampleEncoders sampleReaders
     (sampleSystem (defaultOpts\<lparr>OutputYAML := True, OutputTab := True, Version := True\<rparr>)
        Map.empty identityCode)
     [] initialCli =
   (exitCodeOK, initialCli\<lparr>outStream := [''gojq 0.12.3 (rev: HEAD/go1.16)'' @ newline]\<rparr>)"
  by (simp add: sample_defs run_defs versionLine_def name_def version_def revision_def exitCodes)

section \<open>C6: slurp mode\<close>

lemma slurp_values: "slurp (map Inr vs) acc = [Inr (JArray (acc @ vs))]"
  by (induction vs arbitrary: acc) auto

lemma slurp_error: "slurp (map Inr vs @ Inl msg # rest) acc = [Inl msg]"
  by (induction vs arbitrary: acc) auto

lemma processJSONLoop_slurp:
  "inputSlurp c \<Longrightarrow>
   processJSONLoop E fname code (map Inr vs) acc c =
     printValue E (code (JArray (acc @ vs)) (argvalues c)) c"
  by (induction vs arbitrary: acc) auto

lemma processJSONLoop_slurp_error:
  "inputSlurp c \<Longrightarrow>
   processJSONLoop E fname code (map Inr vs @ Inl (buf, msg) # rest) acc c =
     (Some (JSONParseError0 fname buf (ErrorString msg)), c)"
  by (induction vs arbitrary: acc) auto

lemma createInputIter_slurp_json:
  assumes "inputSlurp c" "\<not> inputRaw c" "\<not> inputStream c" "\<not> inputYAML c"
    and "args = [] \<and> n = ''<stdin>'' \<or> args = [n]"
  shows "records R (createInputIter c args) = slurp (decode R newJSONInputIter n) []"
  using assms by (auto simp: createInputIter_def Let_def)

text \<open>
  C6. In slurp mode with JSON input from one source (standard input or one file): if the
  source decodes to the values \<open>vs\<close>, the input iterator yields the single record
  \<open>JArray vs\<close>, with the values in source order, and processing it is one evaluation of
  the query on that array; if decoding yields an error after some values, the iterator
  yields that error alone, and processing it prints the diagnostic and evaluates nothing.
  In the older revision \<open>processJSON\<close> likewise evaluates the query once, on the array of
  all decoded values, at the end of the input, and returns the parse error without
  evaluating or printing anything if decoding fails.
\<close>

theorem slurp_evaluates_once:
  assumes "inputSlurp c" and "\<not> inputRaw c" and "\<not> inputStream c" and "\<not> inputYAML c"
    and "args = [] \<and> n = ''<stdin>'' \<or> args = [n]"
  shows "(decode R newJSONInputIter n = map Inr vs \<longrightarrow>
            records R (createInputIter c args) = [Inr (JArray vs)] \<and>
            process E (records R (createInputIter c args)) code c =
              (case printValues E (code (JArray vs) (argvalues c)) c of
                 (Some er, c1) \<Rightarrow> (Some (EmptyError er), printError E er c1)
               | (None, c1) \<Rightarrow> (None, c1))) \<and>
         (decode R newJSONInputIter n = map Inr vs @ Inl msg # rest \<longrightarrow>
            records R (createInputIter c args) = [Inl msg] \<and>
            process E (records R (createInputIter c args)) code c =
              (Some (EmptyError (ErrorString msg)), writeErr (name @ '': '' @ msg @ newline) c)) \<and>
         processJSON E fname (map Inr vs) code c =
           printValue E (code (JArray vs) (argvalues c)) c \<and>
         processJSON E fname (map Inr vs @ Inl (buf, msg) # ds) code c =
           (Some (JSONParseError0 fname buf (ErrorString msg)), c)"
proof -
  note r = createInputIter_slurp_json [OF assms, of R]
  have 1: "decode R newJSONInputIter n = map Inr vs \<longrightarrow>
            records R (createInputIter c args) = [Inr (JArray vs)] \<and>
            process E (records R (createInputIter c args)) code c =
              (case printValues E (code (JArray vs) (argvalues c)) c of
                 (Some er, c1) \<Rightarrow> (Some (EmptyError er), printError E er c1)
               | (None, c1) \<Rightarrow> (None, c1))"
    by (auto simp: r slurp_values process_def split: prod.splits option.splits)
  have 2: "decode R newJSONInputIter n = map Inr vs @ Inl msg # rest \<longrightarrow>
            records R (createInputIter c args) = [Inl msg] \<and>
            process E (records R (createInputIter c args)) code c =
              (Some (EmptyError (ErrorString msg)), writeErr (name @ '': '' @ msg @ newline) c)"
    by (auto simp: r slurp_error process_def printError_def Error_def)
  have 3: "processJSON E fname (map Inr vs) code c =
           printValue E (code (JArray vs) (argvalues c)) c"
    using processJSONLoop_slurp [OF assms(1), of E fname code vs "[]"]
    by (simp add: processJSON_def)
  have 4: "processJSON E fname (map Inr vs @ Inl (buf, msg) # ds) code c =
           (Some (JSONParseError0 fname buf (ErrorString msg)), c)"
    using processJSONLoop_slurp_error [OF assms(1), of E fname code vs buf msg ds "[]"]
    by (simp add: processJSON_def)
  show ?thesis using 1 2 3 4 by blast
qed

theorem slurp_evaluates_once_witness:
  "records sampleReaders (createInputIter (initialCli\<lparr>inputSlurp := True\<rparr>) []) =
     [Inr (JArray [JNumber 1, JNumber 2])] \<and>
   process sampleEncoders
       (records sampleReaders (createInputIter (initialCli\<lparr>inputSlurp := True\<rparr>) []))
       identityCode (initialCli\<lparr>inputSlurp := True\<rparr>) =
     (None, initialCli\<lparr>inputSlurp := True, outStream := [''...'', newline]\<rparr>) \<and>
   records (sampleReaders\<lparr>decode := (\<lambda>k n. [Inr (JNumber 1), Inl ''bad''])\<rparr>)
       (createInputIter (initialCli\<lparr>inputSlurp := True\<rparr>) [''f'']) = [Inl ''bad''] \<and>
   processJSON sampleEncoders ''f'' [Inr (JNumber 1), Inl (''1 x'', ''bad'')] identityCode
       (initialCli\<lparr>inputSlurp := True\<rparr>) =
     (Some (JSONParseError0 ''f'' ''1 x'' (ErrorString ''bad'')), initialCli\<lparr>inputSlurp := True\<rparr>)"
  using
    slurp_evaluates_once [where c = "initialCli\<lparr>inputSlurp := True\<rparr>" and args = "[]"
      and n = "''<stdin>''" and R = sampleReaders and vs = "[JNumber 1, JNumber 2]"
      and E = sampleEncoders and code = identityCode]
    slurp_evaluates_once [where c = "initialCli\<lparr>inputSlurp := True\<rparr>" and args = "[''f'']"
      and n = "''f''" and R = "sampleReaders\<lparr>decode := (\<lambda>k n. [Inr (JNumber 1), Inl ''bad''])\<rparr>"
      and vs = "[JNumber 1]" and msg = "''bad''" and rest = "[]" and E = sampleEncoders
      and code = identityCode and fname = "''f''" and buf = "''1 x''" and ds = "[]"]
  by (simp add: sample_defs run_defs Let_def)

section \<open>C7: the filters exec and execpipe\<close>

lemma stringsOf_strings: "stringsOf (map JString as) = Some as"
  by (induction as) auto

text \<open>
  C7. Applied to an executable path and a list of string arguments, \<open>exec\<close> runs the
  command with empty standard input, whatever its own input value is; \<open>execpipe\<close> runs
  it with its input string as standard input, and with empty standard input when its input
  is absent (\<open>null\<close>); an input of \<open>execpipe\<close> that is neither a string nor absent is an
  error. Running the command returns the captured standard output verbatim as a string
  when there is no error and the exit status is zero, and an error when the command cannot
  start or exits with a status other than zero.
\<close>

theorem exec_and_execpipe:
  "funcExec X i [JString path, JArray (map JString as)] = runCommand X ''exec'' path as [] \<and>
   funcExecPipe X (JString s) [JString path, JArray (map JString as)] =
     runCommand X ''execpipe'' path as s \<and>
   funcExecPipe X JNull [JString path, JArray (map JString as)] =
     runCommand X ''execpipe'' path as [] \<and>
   ((\<forall>s. i \<noteq> JString s) \<and> i \<noteq> JNull \<longrightarrow> (\<exists>e. funcExecPipe X i i2 = Returns (Inl e))) \<and>
   (case Output X path as input of
      (out, err, status) \<Rightarrow>
        if err = None \<and> status = 0
        then runCommand X f path as input = Returns (Inr (JString out))
        else \<exists>e. runCommand X f path as input = Returns (Inl e))"
proof -
  have a: "(\<forall>s. i \<noteq> JString s) \<and> i \<noteq> JNull \<longrightarrow> (\<exists>e. funcExecPipe X i i2 = Returns (Inl e))"
    by (cases i) (simp_all add: funcExecPipe_def funcExecImpl_def)
  have b: "(case Output X path as input of
      (out, err, status) \<Rightarrow>
        if err = None \<and> status = 0
        then runCommand X f path as input = Returns (Inr (JString out))
        else \<exists>e. runCommand X f path as input = Returns (Inl e))"
    by (auto simp: runCommand_def split: prod.splits option.splits)
  show ?thesis
    using a b by (simp add: funcExec_def funcExecPipe_def funcExecImpl_def stringsOf_strings)
qed

theorem exec_and_execpipe_witness:
  "funcExec sampleCommands (JNumber 7) [JString ''echo'', JArray [JString ''hi'']] =
     Returns (Inr (JString (''hi'' @ newline))) \<and>
   funcExecPipe sampleCommands (JString ''abc'') [JString ''cat'', JArray []] =
     Returns (Inr (JString ''abc'')) \<and>
   (\<exists>e. funcExecPipe sampleCommands (JNumber 7) [JString ''cat'', JArray []] = Returns (Inl e)) \<and>
   (\<exists>e. funcExec sampleCommands JNull [JString ''false'', JArray []] = Returns (Inl e)) \<and>
   (\<exists>e. funcExec sampleCommands JNull [JString ''nosuch'', JArray []] = Returns (Inl e))"
  using exec_and_execpipe [of sampleCommands "JNumber 7" "''echo''" "[''hi'']" "''abc''"
      "[JString ''cat'', JArray []]" "[]" "''exec''"]
    exec_and_execpipe [of sampleCommands "JNumber 7" "''cat''" "[]" "''abc''"
      "[JString ''cat'', JArray []]" "''abc''" "''execpipe''"]
    exec_and_execpipe [of sampleCommands "JNull" "''false''" "[]" "''abc''"
      "[JString ''cat'', JArray []]" "[]" "''exec''"]
    exec_and_execpipe [of sampleCommands "JNull" "''nosuch''" "[]" "''abc''"
      "[JString ''cat'', JArray []]" "[]" "''exec''"]
  by (simp add: sampleCommands_def runCommand_def newline_def)

section \<open>C8: the YAML document separator\<close>

lemma separated_Cons: "separated (d # ds) = yamlSeparator # d # separated ds"
  by (simp add: separated_def)

lemma separated_Nil [simp]: "separated [] = []"
  by (simp add: separated_def)








text \<open>
  The older revision carries the flag in the state in the same way. For a result sequence
  of values that are not messages of the evaluator, \<open>printValue\<close> writes the separator
  before every document when a document was written before it in the run, and before
  every document after the first otherwise; afterwards the flag is set if it was set or a
  document was written.
\<close>

lemma dispatch_plain: "plainValue x \<Longrightarrow> dispatch m c x = Emit False m x"
  by (auto simp: plainValue_def dispatch_def split: val.splits)

lemma emit_yaml:
  assumes "outputYAML c"
  shows "outStream (emit False xs c) =
           outStream c @ (if outputYAMLSeparator c then [yamlSeparator, xs] else [xs]) \<and>
         outputYAMLSeparator (emit False xs c) \<and> outputYAML (emit False xs c)"
  using assms by (simp add: emit_def writeTo_def writeOut_def Let_def)

lemma printValueLoop_yaml:
  assumes "outputYAML c" and "\<forall>v. \<exists>bs. marshal0 E m v = Inr bs"
    and "list_all plainValue vs"
  shows "outStream (snd (printValueLoop E m (map Inr vs) c)) =
           outStream c @
             (if outputYAMLSeparator c then separated (map (bytesOf0 E m) vs)
              else documents (map (bytesOf0 E m) vs)) \<and>
         outputYAMLSeparator (snd (printValueLoop E m (map Inr vs) c)) =
           (outputYAMLSeparator c \<or> vs \<noteq> [])"
  using assms(1,3)
proof (induction vs arbitrary: c)
  case Nil
  show ?case by (simp add: separated_def)
next
  case (Cons v vs)
  obtain bs where bs: "marshal0 E m v = Inr bs" using assms(2) by blast
  have d: "dispatch m c v = Emit False m v" using Cons.prems(2) by (simp add: dispatch_plain)
  note s = emit_yaml [OF Cons.prems(1), of bs]
  have y: "outputYAML (emit False bs c)" using s by simp
  have r: "list_all plainValue vs" using Cons.prems(2) by simp
  have b: "bytesOf0 E m v = bs" using bs by (simp add: bytesOf0_def)
  from Cons.IH [OF y r] s d bs b show ?case
    by (simp add: separated_Cons)
qed

lemma printValue_yaml_separator:
  assumes "outputYAML c" and "\<forall>v. \<exists>bs. encodeYAML0 E v = Inr bs"
    and "list_all plainValue vs"
  shows "outStream (snd (printValue E (map Inr vs) c)) =
           outStream c @
             (if outputYAMLSeparator c then separated (map (bytesOf0 E yamlFormatter0) vs)
              else documents (map (bytesOf0 E yamlFormatter0) vs)) \<and>
         outputYAMLSeparator (snd (printValue E (map Inr vs) c)) =
           (outputYAMLSeparator c \<or> vs \<noteq> [])"
proof -
  have m: "createMarshaler0 c = yamlFormatter0"
    using assms(1) by (simp add: createMarshaler0_def)
  have "\<forall>v. \<exists>bs. marshal0 E yamlFormatter0 v = Inr bs"
    using assms(2) by simp
  from printValueLoop_yaml [OF assms(1) this assms(3)] m
  show ?thesis by (simp add: printValue_def)
qed

section \<open>C9: the environment and the color setting\<close>

text \<open>
  C9, as amended. When the color flag or the monochrome flag is given, \<open>noColor\<close> is the
  monochrome flag, whatever the environment says. When neither is given, a non-empty
  \<open>NO_COLOR\<close> switches the colors off, and so does a \<open>TERM\<close> whose value is \<open>dumb\<close>.
  In every case an empty \<open>NO_COLOR\<close> has the effect of one that is not set.
\<close>

theorem no_color_unless_flag:
  "(OutputColor opts \<or> OutputMono opts \<longrightarrow> chooseNoColor W opts = OutputMono opts) \<and>
   (\<not> OutputColor opts \<and> \<not> OutputMono opts \<and> Getenv W ''NO_COLOR'' \<noteq> [] \<longrightarrow>
      chooseNoColor W opts) \<and>
   chooseNoColor (W\<lparr>environ := (environ W)(''NO_COLOR'' \<mapsto> [])\<rparr>) opts =
     chooseNoColor (W\<lparr>environ := (environ W)(''NO_COLOR'' := None)\<rparr>) opts \<and>
   (\<not> OutputColor opts \<and> \<not> OutputMono opts \<and> Getenv W ''TERM'' = ''dumb'' \<longrightarrow>
      chooseNoColor W opts)"
  by (simp add: chooseNoColor_def isTTY_def Getenv_def)

theorem no_color_unless_flag_witness:
  "chooseNoColor (sampleSystem defaultOpts [''NO_COLOR'' \<mapsto> ''1''] identityCode) defaultOpts \<and>
   chooseNoColor (sampleSystem defaultOpts [''TERM'' \<mapsto> ''dumb''] identityCode) defaultOpts \<and>
   chooseNoColor (sampleSystem defaultOpts [''NO_COLOR'' \<mapsto> ''1''] identityCode)
     (defaultOpts\<lparr>OutputColor := True\<rparr>) = False"
  using
    no_color_unless_flag [of defaultOpts
      "sampleSystem defaultOpts [''NO_COLOR'' \<mapsto> ''1''] identityCode"]
    no_color_unless_flag [of defaultOpts
      "sampleSystem defaultOpts [''TERM'' \<mapsto> ''dumb''] identityCode"]
    no_color_unless_flag [of "defaultOpts\<lparr>OutputColor := True\<rparr>"
      "sampleSystem defaultOpts [''NO_COLOR'' \<mapsto> ''1''] identityCode"]
  by (simp add: sampleSystem_def defaultOpts_def Getenv_def)

text \<open>
  The claim as stated fails: with the color flag given, a non-empty \<open>NO_COLOR\<close> is not
  honored and the output is colorized.
\<close>

theorem no_color_overridden_counterexample:
  "Getenv (sampleSystem defaultOpts [''NO_COLOR'' \<mapsto> ''1''] identityCode) ''NO_COLOR'' \<noteq> [] \<and>
   \<not> chooseNoColor (sampleSystem defaultOpts [''NO_COLOR'' \<mapsto> ''1''] identityCode)
       (defaultOpts\<lparr>OutputColor := True\<rparr>)"
  by (simp add: sampleSystem_def defaultOpts_def Getenv_def chooseNoColor_def)

section \<open>C10: join and NUL output unwrap strings\<close>

text \<open>
  C10, as amended. With join output or NUL output selected, \<open>createMarshaler\<close> builds the
  marshaler that it builds when raw output is requested as well. When YAML output is not
  selected, that marshaler emits the raw bytes of every string value; under YAML output
  the YAML formatter is used unwrapped, whatever the raw, join and NUL flags are.
\<close>

theorem join_nul_unwrap_like_raw:
  assumes "outputJoin c \<or> outputNul c"
  shows "createMarshaler c = createMarshaler (c\<lparr>outputRaw := True\<rparr>) \<and>
         (\<not> outputYAML c \<longrightarrow> marshal E (createMarshaler c) (JString s) = Inr s) \<and>
         (outputYAML c \<longrightarrow>
            marshal E (createMarshaler c) (JString s) =
              encodeYAML E (outputIndent c) (JString s))"
  using assms by (auto simp: createMarshaler_def Let_def)

theorem join_nul_unwrap_like_raw_witness:
  "createMarshaler (initialCli\<lparr>outputJoin := True\<rparr>) =
     createMarshaler (initialCli\<lparr>outputJoin := True, outputRaw := True\<rparr>) \<and>
   marshal sampleEncoders (createMarshaler (initialCli\<lparr>outputJoin := True\<rparr>)) (JString ''a'') =
     Inr ''a'' \<and>
   marshal sampleEncoders (createMarshaler (initialCli\<lparr>outputNul := True, outputYAML := True\<rparr>))
       (JString ''a'') =
     encodeYAML sampleEncoders None (JString ''a'')"
  using
    join_nul_unwrap_like_raw [of "initialCli\<lparr>outputJoin := True\<rparr>" sampleEncoders "''a''"]
    join_nul_unwrap_like_raw [of "initialCli\<lparr>outputNul := True, outputYAML := True\<rparr>"
      sampleEncoders "''a''"]
  by (simp add: initialCli_def createMarshaler_def sampleEncoders_def sampleEncode_def)

text \<open>
  The claim as stated fails under YAML output: with join output selected a string is
  encoded by the YAML formatter, not emitted raw.
\<close>

theorem join_under_yaml_counterexample:
  "marshal sampleEncoders
     (createMarshaler (initialCli\<lparr>outputJoin := True, outputYAML := True\<rparr>)) (JString ''a'') \<noteq>
   Inr ''a''"
  by (simp add: initialCli_def createMarshaler_def sampleEncoders_def sampleEncode_def)

end
